theory Spec2Isabelle
  imports Main "HOL-Library.AList"
begin

section \<open>Configuration (bot/config.py)\<close>

text \<open>
  \<^verbatim>\<open>PERMISSION_LEVELS\<close> is a dict from the seven tier names to integers. The tier
  names are the constructors of \<open>level\<close>; the dict is the function below. A rank stored
  for a member is a Python int, so ranks are \<open>int\<close>.
\<close>

datatype level = banned | restricted | regular | trusted | moderator | admin | owner

fun PERMISSION_LEVELS :: "level \<Rightarrow> int" where
  "PERMISSION_LEVELS banned = -100"
| "PERMISSION_LEVELS restricted = -10"
| "PERMISSION_LEVELS regular = 0"
| "PERMISSION_LEVELS trusted = 10"
| "PERMISSION_LEVELS moderator = 50"
| "PERMISSION_LEVELS admin = 100"
| "PERMISSION_LEVELS owner = 1000"

text \<open>
  \<^verbatim>\<open>DEFAULT_CONFIG\<close>, the dict of default settings, with its keys and values in the
  order of the source.
\<close>

datatype config_value = Toggle bool | Text string

definition DEFAULT_CONFIG :: "(string \<times> config_value) list" where
  "DEFAULT_CONFIG =
     [(''moderation_enabled'', Toggle True),
      (''auto_delete'', Toggle False),
      (''welcome_enabled'', Toggle True),
      (''welcome_message'',
         Text ''Welcome {username} to {group_name}! Please read the group rules.''),
      (''rules'', Text ''No rules have been set for this group yet.'')]"

section \<open>The data store (bot/storage/data.py)\<close>

text \<open>
  User and chat ids are Python ints. The source keys its dicts by \<^verbatim>\<open>str(id)\<close> (for
  JSON); \<^verbatim>\<open>str\<close> is injective on ints, so the model keys them by the id itself.

  A group's data is a \<^verbatim>\<open>Dict[str, Any]\<close> used as a struct: each key is only ever
  written with one type of value. It is a record of optional fields, \<open>None\<close> for a key
  that is absent; only the keys that the modelled functions read or write are kept.
  A Python dict keeps its keys in insertion order and assigns in place to a key that is
  present: an association list under \<open>AList.update\<close>, read by \<open>map_of\<close>.
\<close>

type_synonym user_id = int
type_synonym chat_id = int

record group_data =
  welcome_message :: "string option"
  rules :: "string option"
  welcome_enabled :: "bool option"
  moderation_enabled :: "bool option"
  auto_delete_enabled :: "bool option"
  message_count :: "int option"
  warnings_issued :: "int option"
  permissions :: "(user_id \<times> int) list option"
  user_warnings :: "(user_id \<times> int) list option"

text \<open>The empty dict \<^verbatim>\<open>{}\<close> that \<^verbatim>\<open>get_group_data\<close> creates for an unknown group.\<close>

definition empty_group :: group_data where
  "empty_group =
     \<lparr>welcome_message = None, rules = None, welcome_enabled = None,
      moderation_enabled = None, auto_delete_enabled = None, message_count = None,
      warnings_issued = None, permissions = None, user_warnings = None\<rparr>"

text \<open>\<^verbatim>\<open>d.get(key, default)\<close> on an optional field.\<close>

definition dict_get :: "'a option \<Rightarrow> 'a \<Rightarrow> 'a" where
  "dict_get field dflt = (case field of None \<Rightarrow> dflt | Some v \<Rightarrow> v)"

text \<open>
  The data file \<^verbatim>\<open>data/bot_data.json\<close>: absent, present but not loadable as JSON, or
  holding the groups that a \<^verbatim>\<open>save_data\<close> wrote. (The \<^verbatim>\<open>'users'\<close> half of
  \<^verbatim>\<open>_data\<close> is not touched by any modelled function and is left out.)
\<close>

type_synonym groups_dict = "(chat_id \<times> group_data) list"

datatype file_content = No_file | Unreadable | Stored groups_dict

text \<open>
  What the next \<^verbatim>\<open>open(DATA_FILE, 'w')\<close> / \<^verbatim>\<open>json.dump\<close> does: it succeeds, it
  raises before the file is touched (\<^verbatim>\<open>open\<close> fails), or it raises after \<^verbatim>\<open>open\<close>
  has truncated the file.
\<close>

datatype write_result = Write_ok | Open_fails | Dump_fails

text \<open>
  The state of the process and of its file:
  \<^item> \<open>groups\<close> is the in-memory dict \<^verbatim>\<open>_data['groups']\<close>;
  \<^item> \<open>data_file\<close> is the content of the data file;
  \<^item> \<open>disk\<close> scripts the file system: its head is the result of the next write
    attempt, and with an empty script every write succeeds;
  \<^item> \<open>written\<close> lists every content successfully written to the file, newest first.
\<close>

record bot_state =
  groups :: groups_dict
  data_file :: file_content
  disk :: "write_result list"
  written :: "groups_dict list"

text \<open>
  \<^verbatim>\<open>load_data\<close>: replaces \<^verbatim>\<open>_data\<close> by the file's content when the file exists and
  loads; a missing file and an exception while loading (logged) leave it as it is.
\<close>

definition load_data :: "bot_state \<Rightarrow> bot_state" where
  "load_data st =
     (case data_file st of
        Stored d \<Rightarrow> st\<lparr>groups := d\<rparr>
      | No_file \<Rightarrow> st
      | Unreadable \<Rightarrow> st)"

text \<open>
  \<^verbatim>\<open>save_data\<close>: dumps \<^verbatim>\<open>_data\<close> to the file. Any exception is caught and logged,
  nothing is raised to the caller and nothing is returned.
\<close>

definition save_data :: "bot_state \<Rightarrow> bot_state" where
  "save_data st =
     (case disk st of
        [] \<Rightarrow> st\<lparr>data_file := Stored (groups st), written := groups st # written st\<rparr>
      | Write_ok # rest \<Rightarrow>
          st\<lparr>data_file := Stored (groups st), written := groups st # written st, disk := rest\<rparr>
      | Open_fails # rest \<Rightarrow> st\<lparr>disk := rest\<rparr>
      | Dump_fails # rest \<Rightarrow> st\<lparr>data_file := Unreadable, disk := rest\<rparr>)"

text \<open>
  \<^verbatim>\<open>get_group_data\<close>: loads the file when the in-memory dict of groups is empty,
  creates an empty dict for an unknown group, and returns the group's dict. The result
  is the dict object held by \<^verbatim>\<open>_data['groups']\<close> itself; every modelled caller that
  mutates it passes it to \<^verbatim>\<open>save_group_data\<close> for the same chat before it reads the
  store again or awaits, so the caller's mutation is modelled where it is stored back.
\<close>

definition get_group_data :: "chat_id \<Rightarrow> bot_state \<Rightarrow> group_data \<times> bot_state" where
  "get_group_data chat_id st =
     (let st1 = (if groups st = [] then load_data st else st) in
      case map_of (groups st1) chat_id of
        None \<Rightarrow>
          (empty_group, st1\<lparr>groups := AList.update chat_id empty_group (groups st1)\<rparr>)
      | Some g \<Rightarrow> (g, st1))"

text \<open>
  \<^verbatim>\<open>save_group_data\<close>: assigns the dict to the group's key and calls \<^verbatim>\<open>save_data\<close>.
  Neither step raises (\<^verbatim>\<open>save_data\<close> swallows its exceptions), so the \<^verbatim>\<open>except\<close>
  branch that returns False is never taken.
\<close>

definition save_group_data :: "chat_id \<Rightarrow> group_data \<Rightarrow> bot_state \<Rightarrow> bool \<times> bot_state" where
  "save_group_data chat_id data st =
     (True, save_data (st\<lparr>groups := AList.update chat_id data (groups st)\<rparr>))"

section \<open>Permissions (bot/utils/permissions.py)\<close>

definition check_permission :: "user_id \<Rightarrow> chat_id \<Rightarrow> bot_state \<Rightarrow> int \<times> bot_state" where
  "check_permission user_id chat_id st =
     (let (group_data, st1) = get_group_data chat_id st;
          perms = dict_get (permissions group_data) []
      in (dict_get (map_of perms user_id) (PERMISSION_LEVELS regular), st1))"

definition set_permission ::
  "user_id \<Rightarrow> chat_id \<Rightarrow> int \<Rightarrow> bot_state \<Rightarrow> bool \<times> bot_state" where
  "set_permission user_id chat_id permission_level st =
     (let (group_data, st1) = get_group_data chat_id st;
          perms = dict_get (permissions group_data) [];
          perms' = AList.update user_id permission_level perms;
          group_data' = group_data\<lparr>permissions := Some perms'\<rparr>;
          (_, st2) = save_group_data chat_id group_data' st1
      in (True, st2))"

definition update_user_permission ::
  "user_id \<Rightarrow> chat_id \<Rightarrow> int \<Rightarrow> bot_state \<Rightarrow> bool \<times> bot_state" where
  "update_user_permission user_id chat_id new_permission st =
     set_permission user_id chat_id new_permission st"

section \<open>Content moderation (bot/utils/moderation.py)\<close>





section \<open>Awaiting a value that is not awaitable\<close>

text \<open>
  The handlers of command_handlers.py and message_handlers.py are coroutines
  (\<^verbatim>\<open>async def\<close>). \<^verbatim>\<open>check_permission\<close> and \<^verbatim>\<open>update_user_permission\<close>
  (permissions.py) and \<^verbatim>\<open>check_message_content\<close> (moderation.py) are plain functions
  (\<^verbatim>\<open>def\<close>): a call of one returns an int, a bool or a tuple, and Python's
  \<^verbatim>\<open>await\<close> applied to such a value raises \<^verbatim>\<open>TypeError\<close>. So in
  \<^verbatim>\<open>await check_permission(user.id, chat.id)\<close> the call is evaluated, with its effect on
  the store, and then the \<^verbatim>\<open>await\<close> raises. No handler catches the exception: it
  leaves the handler, and the statements after that line are never executed.

  A handler reads the acting user, the chat, the message that the command replies to
  (\<^verbatim>\<open>update.message.reply_to_message\<close>, whose \<^verbatim>\<open>from_user\<close> may be None) and
  \<^verbatim>\<open>context.args\<close>. It gives back how it ends, by returning or by an exception that
  leaves it, and the state it leaves.
\<close>

datatype exn = TypeError

datatype outcome = Returned | Raised exn

datatype replied = No_reply | Reply_from "user_id option"

section \<open>Command handlers (bot/handlers/command_handlers.py)\<close>

text \<open>
  \<^verbatim>\<open>promote_command\<close>, \<^verbatim>\<open>demote_command\<close> and \<^verbatim>\<open>ban_command\<close> begin with
  \<^verbatim>\<open>user_permission = await check_permission(user.id, chat.id)\<close> (lines 124, 184 and
  242). The comparison with \<^verbatim>\<open>PERMISSION_LEVELS['admin']\<close>, the lookup of the target,
  the comparison of the two ranks and the call of \<^verbatim>\<open>update_user_permission\<close> all
  stand after that line.
\<close>

definition promote_command ::
  "user_id \<Rightarrow> chat_id \<Rightarrow> replied \<Rightarrow> string list \<Rightarrow> bot_state \<Rightarrow> outcome \<times> bot_state" where
  "promote_command user chat reply_to_message args st =
     (let (user_permission, st1) = check_permission user chat st
      in (Raised TypeError, st1))"

definition demote_command ::
  "user_id \<Rightarrow> chat_id \<Rightarrow> replied \<Rightarrow> string list \<Rightarrow> bot_state \<Rightarrow> outcome \<times> bot_state" where
  "demote_command user chat reply_to_message args st =
     (let (user_permission, st1) = check_permission user chat st
      in (Raised TypeError, st1))"

definition ban_command ::
  "user_id \<Rightarrow> chat_id \<Rightarrow> replied \<Rightarrow> string list \<Rightarrow> bot_state \<Rightarrow> outcome \<times> bot_state" where
  "ban_command user chat reply_to_message args st =
     (let (user_permission, st1) = check_permission user chat st
      in (Raised TypeError, st1))"

text \<open>
  \<^verbatim>\<open>mute_command\<close> and \<^verbatim>\<open>warn_command\<close> begin with the same line (494 and 622),
  followed by the comparison with \<^verbatim>\<open>PERMISSION_LEVELS['moderator']\<close>. In
  \<^verbatim>\<open>warn_command\<close> the increments of \<^verbatim>\<open>user_warnings\<close> and \<^verbatim>\<open>warnings_issued\<close>,
  their save (lines 655 to 664) and the restriction at three warnings (lines 677 to 689)
  stand after it.
\<close>

definition mute_command ::
  "user_id \<Rightarrow> chat_id \<Rightarrow> replied \<Rightarrow> string list \<Rightarrow> bot_state \<Rightarrow> outcome \<times> bot_state" where
  "mute_command user chat reply_to_message args st =
     (let (user_permission, st1) = check_permission user chat st
      in (Raised TypeError, st1))"

definition warn_command ::
  "user_id \<Rightarrow> chat_id \<Rightarrow> replied \<Rightarrow> string list \<Rightarrow> bot_state \<Rightarrow> outcome \<times> bot_state" where
  "warn_command user chat reply_to_message args st =
     (let (user_permission, st1) = check_permission user chat st
      in (Raised TypeError, st1))"

text \<open>
  \<^verbatim>\<open>settings_command\<close> begins with the same line (392); the reads of the three
  toggles (lines 405 to 407) and the assignments to them (lines 439 to 452) stand after
  it.
\<close>

definition settings_command ::
  "user_id \<Rightarrow> chat_id \<Rightarrow> string list \<Rightarrow> bot_state \<Rightarrow> outcome \<times> bot_state" where
  "settings_command user chat args st =
     (let (user_permission, st1) = check_permission user chat st
      in (Raised TypeError, st1))"

section \<open>Message handler (bot/handlers/message_handlers.py)\<close>


section \<open>Concurrent warn commands\<close>

text \<open>
  The event loop runs a coroutine from one suspension point to the next without
  interruption. \<^verbatim>\<open>warn_command\<close> raises at its first \<^verbatim>\<open>await\<close>, before it has ever
  suspended, so each of its runs is one uninterrupted step. A schedule of concurrent
  \<^verbatim>\<open>/warn\<close> commands is then the order in which their steps run: any list of the
  calls.
\<close>

type_synonym warn_call = "user_id \<times> chat_id \<times> replied \<times> string list"

fun run_warns :: "warn_call list \<Rightarrow> bot_state \<Rightarrow> bot_state" where
  "run_warns [] st = st"
| "run_warns ((user, chat, reply_to_message, args) # calls) st =
     run_warns calls (snd (warn_command user chat reply_to_message args st))"

section \<open>Observations\<close>

text \<open>
  What the code reads back: a group's dict as \<^verbatim>\<open>get_group_data\<close> returns it, a
  group's dict inside a dict of groups (a content written to the file), and the three
  reads \<^verbatim>\<open>user_warnings.get(id, 0)\<close>, \<^verbatim>\<open>group_data.get('warnings_issued', 0)\<close> and
  \<^verbatim>\<open>permissions.get(id, PERMISSION_LEVELS['regular'])\<close>.
\<close>

definition group_of :: "chat_id \<Rightarrow> bot_state \<Rightarrow> group_data" where
  "group_of c st = fst (get_group_data c st)"

definition lookup_group :: "groups_dict \<Rightarrow> chat_id \<Rightarrow> group_data" where
  "lookup_group gs c = dict_get (map_of gs c) empty_group"

definition warnings_of :: "group_data \<Rightarrow> user_id \<Rightarrow> int" where
  "warnings_of g u = dict_get (map_of (dict_get (user_warnings g) []) u) 0"

definition issued_of :: "group_data \<Rightarrow> int" where
  "issued_of g = dict_get (warnings_issued g) 0"

definition rank_of :: "group_data \<Rightarrow> user_id \<Rightarrow> int" where
  "rank_of g u = dict_get (map_of (dict_get (permissions g) []) u) (PERMISSION_LEVELS regular)"

section \<open>Example states\<close>

text \<open>
  A group with an admin (user 10), a moderator (user 20) and a regular member (user 30)
  who has two warnings. For the one ASCII text \<^verbatim>\<open>badword1\<close>, stand-ins that agree
  with \<^verbatim>\<open>str.lower\<close> (the text is in lower case already) and with \<^verbatim>\<open>re.search\<close>
  (the configured pattern matches the whole text; no other pattern is given a match).
\<close>

definition ex_group :: group_data where
  "ex_group = empty_group
     \<lparr>permissions := Some [(10, 100), (20, 50), (30, 0)],
      user_warnings := Some [(30, 2)],
      warnings_issued := Some 2\<rparr>"

definition ex_state :: bot_state where
  "ex_state = \<lparr>groups = [(1, ex_group)], data_file = No_file, disk = [], written = []\<rparr>"



section \<open>Facts about the store\<close>

lemma dict_get_simps [simp]:
  "dict_get None d = d"
  "dict_get (Some v) d = v"
  by (simp_all add: dict_get_def)

lemma groups_save_data: "groups (save_data st) = groups st"
  by (simp add: save_data_def split: list.split write_result.split)

lemma get_group_data_known:
  "groups st \<noteq> [] \<Longrightarrow> map_of (groups st) c = Some g \<Longrightarrow> get_group_data c st = (g, st)"
  by (simp add: get_group_data_def)

lemma groups_get_group_data_nonempty: "groups (snd (get_group_data c st)) \<noteq> []"
  by (auto simp: get_group_data_def Let_def split: option.split)

lemma map_of_get_group_data:
  "map_of (groups (snd (get_group_data c st))) c = Some (fst (get_group_data c st))"
  by (auto simp: get_group_data_def Let_def AList.update_conv' split: option.split)

text \<open>A second \<^verbatim>\<open>get_group_data\<close> for the same chat changes nothing.\<close>

lemma get_group_data_again:
  "get_group_data c (snd (get_group_data c st)) = get_group_data c st"
  using get_group_data_known [OF groups_get_group_data_nonempty map_of_get_group_data]
  by simp

lemma get_group_data_after_save:
  "get_group_data c (snd (save_group_data c g st)) = (g, snd (save_group_data c g st))"
  by (rule get_group_data_known)
     (simp_all add: save_group_data_def groups_save_data AList.update_conv')

lemma disk_get_group_data: "disk (snd (get_group_data c st)) = disk st"
  by (auto simp: get_group_data_def load_data_def Let_def split: option.split file_content.split)

lemma written_get_group_data: "written (snd (get_group_data c st)) = written st"
  by (auto simp: get_group_data_def load_data_def Let_def split: option.split file_content.split)

lemma group_of_after_save: "group_of c (snd (save_group_data c g st)) = g"
  by (simp add: group_of_def get_group_data_after_save)

lemma lookup_group_after_save: "lookup_group (groups (snd (save_group_data c g st))) c = g"
  by (simp add: lookup_group_def save_group_data_def groups_save_data AList.update_conv')

text \<open>With nothing scripted to fail, a save is one more content written to the file.\<close>

lemma save_group_data_writes:
  "disk st = [] \<Longrightarrow>
     written (snd (save_group_data c g st)) = groups (snd (save_group_data c g st)) # written st \<and>
     disk (snd (save_group_data c g st)) = []"
  by (simp add: save_group_data_def save_data_def)

section \<open>Facts about permissions\<close>

lemma snd_check_permission: "snd (check_permission u c st) = snd (get_group_data c st)"
  by (simp add: check_permission_def split_def Let_def)

lemma check_permission_rank_of: "fst (check_permission u c st) = rank_of (group_of c st) u"
  by (simp add: check_permission_def rank_of_def group_of_def split_def Let_def)

lemma check_permission_after_get:
  "check_permission u c (snd (get_group_data c st)) =
     (fst (check_permission u c st), snd (get_group_data c st))"
  by (simp add: check_permission_def split_def Let_def get_group_data_again)

lemma check_permission_again:
  "fst (check_permission u' c (snd (check_permission u c st))) = fst (check_permission u' c st)"
  by (simp add: snd_check_permission check_permission_after_get)

lemma set_permission_unfold:
  "snd (set_permission u c l st) =
     snd (save_group_data c
            ((group_of c st)\<lparr>permissions :=
                Some (AList.update u l (dict_get (permissions (group_of c st)) []))\<rparr>)
            (snd (get_group_data c st)))"
  by (simp add: set_permission_def group_of_def split_def Let_def)

lemma fst_set_permission: "fst (set_permission u c l st) = True"
  by (simp add: set_permission_def split_def Let_def)

lemma group_of_after_set_permission:
  "group_of c (snd (set_permission u c l st)) =
     (group_of c st)\<lparr>permissions :=
        Some (AList.update u l (dict_get (permissions (group_of c st)) []))\<rparr>"
  by (simp add: set_permission_unfold group_of_after_save)

lemma check_permission_after_set:
  "fst (check_permission u' c (snd (set_permission u c l st))) =
     (if u' = u then l else fst (check_permission u' c st))"
  unfolding check_permission_rank_of group_of_after_set_permission
  by (simp add: rank_of_def AList.update_conv')

lemma update_user_permission_rank:
  "fst (check_permission u' c (snd (update_user_permission u c l st))) =
     (if u' = u then l else fst (check_permission u' c st))"
  by (simp add: update_user_permission_def check_permission_after_set)

lemma set_permission_writes:
  "disk st = [] \<Longrightarrow>
     written (snd (set_permission u c l st)) = groups (snd (set_permission u c l st)) # written st"
  by (simp add: set_permission_unfold save_group_data_writes disk_get_group_data
      written_get_group_data)

section \<open>Facts about the handlers\<close>

text \<open>Reading one group never changes what is read of any group.\<close>

lemma group_of_after_get: "group_of c (snd (get_group_data c' st)) = group_of c st"
proof (cases "c = c'")
  case True
  then show ?thesis by (simp add: group_of_def get_group_data_again)
next
  case False
  define st1 where "st1 = (if groups st = [] then load_data st else st)"
  have a: "get_group_data c st =
      (case map_of (groups st1) c of
         None \<Rightarrow> (empty_group, st1\<lparr>groups := AList.update c empty_group (groups st1)\<rparr>)
       | Some g \<Rightarrow> (g, st1))"
    unfolding get_group_data_def Let_def st1_def by (rule refl)
  have b: "get_group_data c' st =
      (case map_of (groups st1) c' of
         None \<Rightarrow> (empty_group, st1\<lparr>groups := AList.update c' empty_group (groups st1)\<rparr>)
       | Some g \<Rightarrow> (g, st1))"
    unfolding get_group_data_def Let_def st1_def by (rule refl)
  show ?thesis
  proof (cases "map_of (groups st1) c'")
    case None
    then have s: "snd (get_group_data c' st) =
        st1\<lparr>groups := AList.update c' empty_group (groups st1)\<rparr>"
      by (simp add: b)
    show ?thesis
      unfolding group_of_def s a using False
      by (simp add: get_group_data_def AList.update_conv' split: option.split)
  next
    case (Some g)
    then have s: "snd (get_group_data c' st) = st1" and ne: "groups st1 \<noteq> []"
      by (auto simp: b)
    show ?thesis
      unfolding group_of_def s a using ne
      by (simp add: get_group_data_def split: option.split)
  qed
qed

lemma written_check_permission: "written (snd (check_permission u c st)) = written st"
  by (simp add: snd_check_permission written_get_group_data)


lemma demote_command_raises:
  "demote_command u c r args st = (Raised TypeError, snd (get_group_data c st))"
  by (simp add: demote_command_def split_def snd_check_permission)

lemma ban_command_raises:
  "ban_command u c r args st = (Raised TypeError, snd (get_group_data c st))"
  by (simp add: ban_command_def split_def snd_check_permission)

lemma mute_command_raises:
  "mute_command u c r args st = (Raised TypeError, snd (get_group_data c st))"
  by (simp add: mute_command_def split_def snd_check_permission)

lemma warn_command_raises:
  "warn_command u c r args st = (Raised TypeError, snd (get_group_data c st))"
  by (simp add: warn_command_def split_def snd_check_permission)

lemma settings_command_raises:
  "settings_command u c args st = (Raised TypeError, snd (get_group_data c st))"
  by (simp add: settings_command_def split_def snd_check_permission)

text \<open>
  Under every schedule, concurrent \<^verbatim>\<open>/warn\<close> commands leave every group as it is read
  and write nothing to the file.
\<close>

lemma group_of_run_warns: "group_of c (run_warns calls st) = group_of c st"
  by (induction calls st rule: run_warns.induct)
     (simp_all add: warn_command_raises group_of_after_get)

lemma written_run_warns: "written (run_warns calls st) = written st"
  by (induction calls st rule: run_warns.induct)
     (simp_all add: warn_command_raises written_get_group_data)


section \<open>Claims about the permission ledger\<close>

text \<open>
  C10. For every group, user and permission level: if \<^verbatim>\<open>set_permission(u, g, l)\<close>
  returns True, then a \<^verbatim>\<open>check_permission(u, g)\<close> that follows at once returns exactly
  \<open>l\<close>, and the level of every other user of the group is what it was before the set.
\<close>

theorem set_permission_then_check:
  "set_permission u c l st = (True, st') \<Longrightarrow>
     fst (check_permission u c st') = l \<and>
     (\<forall>u'. u' \<noteq> u \<longrightarrow> fst (check_permission u' c st') = fst (check_permission u' c st))"
  using check_permission_after_set [of _ c u l st] by (cases "set_permission u c l st") auto

text \<open>
  Witness for C10: in the example group, while the data file cannot be opened for
  writing, the level of user 30 is set to 50; it reads back as 50 and the admin 10
  still reads as 100.
\<close>

theorem set_permission_then_check_witness:
  "fst (set_permission 30 1 50 (ex_state\<lparr>disk := [Open_fails]\<rparr>)) = True \<and>
   fst (check_permission 30 1 (snd (set_permission 30 1 50 (ex_state\<lparr>disk := [Open_fails]\<rparr>)))) = 50 \<and>
   fst (check_permission 10 1 (snd (set_permission 30 1 50 (ex_state\<lparr>disk := [Open_fails]\<rparr>)))) = 100"
proof -
  let ?st = "ex_state\<lparr>disk := [Open_fails]\<rparr>"
  have r: "fst (set_permission 30 1 50 ?st) = True"
    by (rule fst_set_permission)
  then have run: "set_permission 30 1 50 ?st = (True, snd (set_permission 30 1 50 ?st))"
    by (metis prod.collapse)
  have old: "fst (check_permission 10 1 ?st) = 100"
    by code_simp
  show ?thesis
    using set_permission_then_check [OF run] r old by simp
qed

section \<open>Claims about the store\<close>

text \<open>
  C4, as amended. The claim says that when the persistence write fails the in-memory
  mutation is rolled back and the call fails with a StoreWriteFailure. The code has no
  rollback and no such failure: \<^verbatim>\<open>save_group_data\<close> assigns the record in memory
  first, and \<^verbatim>\<open>save_data\<close> logs a failed write and returns. What holds: after every
  \<^verbatim>\<open>save_group_data\<close> the in-memory store holds the new record, whether or not the
  write succeeds; the data file holds the new store when the write succeeds, keeps its
  old content when the file cannot be opened, and is unreadable when the dump fails.
\<close>

theorem save_group_data_keeps_mutation:
  "group_of c (snd (save_group_data c g st)) = g \<and>
   lookup_group (groups (snd (save_group_data c g st))) c = g \<and>
   data_file (snd (save_group_data c g st)) =
     (case disk st of
        [] \<Rightarrow> Stored (groups (snd (save_group_data c g st)))
      | Write_ok # rest \<Rightarrow> Stored (groups (snd (save_group_data c g st)))
      | Open_fails # rest \<Rightarrow> data_file st
      | Dump_fails # rest \<Rightarrow> Unreadable)"
  by (simp add: group_of_after_save lookup_group_after_save)
     (simp add: save_group_data_def save_data_def split: list.split write_result.split)

text \<open>
  Counterexample to C4 as stated: the example group's rules are set while the dump to
  the data file fails. Nothing is written and the file is left unreadable, yet the
  in-memory record is the new one, not the one from before, and the call returns True.
\<close>

theorem save_group_data_no_rollback_counterexample:
  "written (snd (save_group_data 1 (ex_group\<lparr>rules := Some ''be kind''\<rparr>)
       (ex_state\<lparr>disk := [Dump_fails]\<rparr>))) = [] \<and>
   data_file (snd (save_group_data 1 (ex_group\<lparr>rules := Some ''be kind''\<rparr>)
       (ex_state\<lparr>disk := [Dump_fails]\<rparr>))) = Unreadable \<and>
   lookup_group (groups (ex_state\<lparr>disk := [Dump_fails]\<rparr>)) 1 = ex_group \<and>
   lookup_group (groups (snd (save_group_data 1 (ex_group\<lparr>rules := Some ''be kind''\<rparr>)
       (ex_state\<lparr>disk := [Dump_fails]\<rparr>)))) 1 = ex_group\<lparr>rules := Some ''be kind''\<rparr> \<and>
   ex_group\<lparr>rules := Some ''be kind''\<rparr> \<noteq> ex_group \<and>
   fst (save_group_data 1 (ex_group\<lparr>rules := Some ''be kind''\<rparr>)
       (ex_state\<lparr>disk := [Dump_fails]\<rparr>)) = True"
  by code_simp

section \<open>Claims about authorization, promotion and demotion\<close>

text \<open>
  C1. For every actor rank \<open>a\<close>, target rank \<open>b\<close> and minimum rank, the authorization
  decision as the promote, demote, ban, mute and warn handlers apply it grants the
  action if and only if \<open>a\<close> is at least the minimum and \<open>a > b\<close>. The code does not
  do this. In the example group the admin 10 meets the minimum of promote, demote and
  ban and outranks member 30, and the moderator 20 meets the minimum of mute and warn
  and outranks member 30; yet each of the five handlers ends in \<^verbatim>\<open>TypeError\<close> at its
  first line, before either comparison, and leaves the group as it was.
\<close>

theorem authorized_commands_raise:
  "PERMISSION_LEVELS admin \<le> fst (check_permission 10 1 ex_state) \<and>
   fst (check_permission 30 1 ex_state) < fst (check_permission 10 1 ex_state) \<and>
   promote_command 10 1 (Reply_from (Some 30)) [] ex_state = (Raised TypeError, ex_state) \<and>
   demote_command 10 1 (Reply_from (Some 30)) [] ex_state = (Raised TypeError, ex_state) \<and>
   ban_command 10 1 (Reply_from (Some 30)) [] ex_state = (Raised TypeError, ex_state) \<and>
   PERMISSION_LEVELS moderator \<le> fst (check_permission 20 1 ex_state) \<and>
   fst (check_permission 30 1 ex_state) < fst (check_permission 20 1 ex_state) \<and>
   mute_command 20 1 (Reply_from (Some 30)) [] ex_state = (Raised TypeError, ex_state) \<and>
   warn_command 20 1 (Reply_from (Some 30)) [] ex_state = (Raised TypeError, ex_state)"
  by code_simp



text \<open>
  C6. For every authorized promotion, a target whose rank is below moderator is set to
  exactly moderator, and a target whose rank is at or above moderator (and below the
  actor's) is set to exactly admin. The code does not do this. The admin 10 may promote
  member 30 (regular, below moderator) and the moderator 20; \<^verbatim>\<open>promote_command\<close> ends
  in \<^verbatim>\<open>TypeError\<close> before it stores anything, so 30 stays regular and 20 stays
  moderator.
\<close>

theorem promote_stores_no_rank:
  "PERMISSION_LEVELS admin \<le> fst (check_permission 10 1 ex_state) \<and>
   fst (check_permission 30 1 ex_state) < fst (check_permission 10 1 ex_state) \<and>
   fst (check_permission 30 1 ex_state) < PERMISSION_LEVELS moderator \<and>
   fst (promote_command 10 1 (Reply_from (Some 30)) [] ex_state) = Raised TypeError \<and>
   fst (check_permission 30 1 (snd (promote_command 10 1 (Reply_from (Some 30)) [] ex_state)))
     = PERMISSION_LEVELS regular \<and>
   fst (check_permission 20 1 ex_state) < fst (check_permission 10 1 ex_state) \<and>
   PERMISSION_LEVELS moderator \<le> fst (check_permission 20 1 ex_state) \<and>
   fst (promote_command 10 1 (Reply_from (Some 20)) [] ex_state) = Raised TypeError \<and>
   fst (check_permission 20 1 (snd (promote_command 10 1 (Reply_from (Some 20)) [] ex_state)))
     = PERMISSION_LEVELS moderator"
  by code_simp

text \<open>
  C7. For every authorized demotion, a target whose rank is at or above moderator is set
  to exactly regular, and a target whose rank is below moderator is set to exactly
  restricted. The code does not do this. The admin 10 may demote the moderator 20 and
  member 30 (regular); \<^verbatim>\<open>demote_command\<close> ends in \<^verbatim>\<open>TypeError\<close> before it stores
  anything, so 20 stays moderator and 30 stays regular.
\<close>

theorem demote_stores_no_rank:
  "PERMISSION_LEVELS admin \<le> fst (check_permission 10 1 ex_state) \<and>
   fst (check_permission 20 1 ex_state) < fst (check_permission 10 1 ex_state) \<and>
   PERMISSION_LEVELS moderator \<le> fst (check_permission 20 1 ex_state) \<and>
   fst (demote_command 10 1 (Reply_from (Some 20)) [] ex_state) = Raised TypeError \<and>
   fst (check_permission 20 1 (snd (demote_command 10 1 (Reply_from (Some 20)) [] ex_state)))
     = PERMISSION_LEVELS moderator \<and>
   fst (check_permission 30 1 ex_state) < fst (check_permission 10 1 ex_state) \<and>
   fst (check_permission 30 1 ex_state) < PERMISSION_LEVELS moderator \<and>
   fst (demote_command 10 1 (Reply_from (Some 30)) [] ex_state) = Raised TypeError \<and>
   fst (check_permission 30 1 (snd (demote_command 10 1 (Reply_from (Some 30)) [] ex_state)))
     = PERMISSION_LEVELS regular"
  by code_simp

section \<open>Claims about warnings\<close>

text \<open>
  C2. For every authorized warning on a (group, member) pair, the member's warning count
  and the group's \<^verbatim>\<open>warnings_issued\<close> counter each go up by exactly 1 in one atomic
  section, and when the count reaches 3 the member's rank is forced to restricted in
  that same section. The code does not do this. The moderator 20 may warn member 30,
  who has two warnings; \<^verbatim>\<open>warn_command\<close> ends in \<^verbatim>\<open>TypeError\<close> before it touches a
  counter: the count stays 2, the group's total stays 2, the rank of 30 stays regular
  and nothing is written to the file.
\<close>

theorem warn_changes_nothing:
  "PERMISSION_LEVELS moderator \<le> fst (check_permission 20 1 ex_state) \<and>
   fst (check_permission 30 1 ex_state) < fst (check_permission 20 1 ex_state) \<and>
   warnings_of (group_of 1 ex_state) 30 = 2 \<and>
   fst (warn_command 20 1 (Reply_from (Some 30)) [] ex_state) = Raised TypeError \<and>
   warnings_of (group_of 1 (snd (warn_command 20 1 (Reply_from (Some 30)) [] ex_state))) 30 = 2 \<and>
   issued_of (group_of 1 (snd (warn_command 20 1 (Reply_from (Some 30)) [] ex_state))) = 2 \<and>
   fst (check_permission 30 1 (snd (warn_command 20 1 (Reply_from (Some 30)) [] ex_state)))
     = PERMISSION_LEVELS regular \<and>
   written (snd (warn_command 20 1 (Reply_from (Some 30)) [] ex_state)) = []"
  by code_simp

text \<open>
  C3. Concurrent state-mutating calls for one group are serialized, so that N concurrent
  warning operations on one (group, member) leave the warning count at exactly N more,
  with no lost update. The code does not do this. Ten concurrent \<^verbatim>\<open>/warn\<close> commands
  of the moderator 20 against member 30, who has two warnings, leave the count at 2
  under every schedule, not at 12, and write nothing to the file: each of the ten ends
  in \<^verbatim>\<open>TypeError\<close> before it touches the counter. The same holds of any number of
  \<^verbatim>\<open>/warn\<close> commands, by any callers, in any order: no count changes.
\<close>

theorem concurrent_warns_count_nothing:
  "warnings_of (group_of c (run_warns calls st)) t = warnings_of (group_of c st) t \<and>
   written (run_warns calls st) = written st \<and>
   length (replicate 10 (20 :: user_id, 1 :: chat_id, Reply_from (Some 30), [] :: string list)) = 10 \<and>
   warnings_of (group_of 1 ex_state) 30 = 2 \<and>
   warnings_of
     (group_of 1 (run_warns (replicate 10 (20, 1, Reply_from (Some 30), [])) ex_state)) 30 = 2 \<and>
   written (run_warns (replicate 10 (20, 1, Reply_from (Some 30), [])) ex_state) = []"
proof -
  have "warnings_of (group_of 1 ex_state) 30 = 2" "written ex_state = []"
    by code_simp+
  then show ?thesis
    by (simp add: group_of_run_warns written_run_warns)
qed

section \<open>Claims about the content screen and the settings\<close>


text \<open>
  C9. Setting a settings key and reading it back returns the value that was set, and a
  key that was never set reads as its configured default. The code does not do the
  first. The admin 10 sends \<^verbatim>\<open>/settings moderation off\<close>; \<^verbatim>\<open>settings_command\<close> ends
  in \<^verbatim>\<open>TypeError\<close> before it assigns anything, the key \<^verbatim>\<open>moderation_enabled\<close> stays
  absent from the group's dict, and a read of it with the fallback True gives True, not
  the False that was set.
\<close>

theorem settings_never_set:
  "PERMISSION_LEVELS admin \<le> fst (check_permission 10 1 ex_state) \<and>
   fst (settings_command 10 1 [''moderation'', ''off''] ex_state) = Raised TypeError \<and>
   moderation_enabled (group_of 1 (snd (settings_command 10 1 [''moderation'', ''off''] ex_state)))
     = None \<and>
   dict_get
     (moderation_enabled (group_of 1 (snd (settings_command 10 1 [''moderation'', ''off''] ex_state))))
     True = True"
  by code_simp

end
